theory Spec2Isabelle
  imports Complex_Main
begin

section \<open>Scalar types of \<^verbatim>\<open>TACSObject.h\<close>\<close>

text \<open>
  \<^verbatim>\<open>typedef std::complex<double> TacsComplex;\<close>
  A \<^verbatim>\<open>double\<close> is modelled by a real number and \<^verbatim>\<open>std::complex<double>\<close> by a
  pair of reals, the HOL type \<open>complex\<close>. The functions below only compare with zero,
  negate and project, which are exact on doubles, so no rounding is abstracted away.
\<close>

type_synonym double = real

type_synonym TacsComplex = complex

text \<open>
  The converting constructor \<^verbatim>\<open>std::complex<double>(double re = 0.0, double im = 0.0)\<close>,
  which the compiler inserts where a \<^verbatim>\<open>double\<close> is passed for a
  \<^verbatim>\<open>const TacsComplex&\<close>.
\<close>

definition TacsComplex_of_double :: "double \<Rightarrow> TacsComplex" where
  "TacsComplex_of_double re = Complex re 0"

text \<open>\<^verbatim>\<open>inline double RealPart( const TacsComplex& c ){ return real(c); }\<close>\<close>

definition RealPart :: "TacsComplex \<Rightarrow> double" where
  "RealPart c = Re c"

text \<open>\<^verbatim>\<open>inline double ImagPart( const TacsComplex& c ){ return imag(c); }\<close>\<close>

definition ImagPart :: "TacsComplex \<Rightarrow> double" where
  "ImagPart c = Im c"

text \<open>
  \<^verbatim>\<open>inline double RealPart( const double& r ){ return r; }\<close>
  The overload for a plain real; HOL has no overloading by argument type, hence the suffix.
\<close>

definition RealPart_double :: "double \<Rightarrow> double" where
  "RealPart_double r = r"

text \<open>
  In the real build (\<^verbatim>\<open>typedef double TacsScalar\<close>) the header has no overload of
  \<^verbatim>\<open>ImagPart\<close> for a \<^verbatim>\<open>double\<close>: a call \<^verbatim>\<open>ImagPart(x)\<close> on a scalar resolves to the
  complex version through the converting constructor.
\<close>

definition ImagPart_double :: "double \<Rightarrow> double" where
  "ImagPart_double r = ImagPart (TacsComplex_of_double r)"

text \<open>
  \<^verbatim>\<open>inline TacsComplex fabs( const TacsComplex& c ){
    if (real(c) < 0.0){ return -c; }
    return c;
  }\<close>
\<close>

definition fabs :: "TacsComplex \<Rightarrow> TacsComplex" where
  "fabs c = (if Re c < 0 then - c else c)"

section \<open>Reference counting: class \<^verbatim>\<open>TACSObject\<close>\<close>

text \<open>
  \<^verbatim>\<open>class TACSObject { ... private: int ref_count; ... };\<close>
  The record is extensible, so a derived class is a record extension and the inherited
  methods are defined on the record scheme.
\<close>

record TACSObject =
  ref_count :: int

text \<open>
  A call either returns or is a contract violation, which the design treats as a fatal
  programmer error. After \<^verbatim>\<open>delete this\<close> the instance no longer exists.
\<close>

datatype tacs_error = ContractViolation

type_synonym 'r outcome = "tacs_error + 'r"

datatype 'obj lifetime = Live 'obj | Destroyed

text \<open>
  Modelled from the spec: the bodies of \<^verbatim>\<open>TACSObject::TACSObject()\<close>,
  \<^verbatim>\<open>incref()\<close>, \<^verbatim>\<open>decref()\<close> and \<^verbatim>\<open>refcount()\<close>, which the header only declares.
  The count is a signed integer initialised to zero at construction; \<open>incref\<close>
  increments it by 1 and always succeeds; \<open>decref\<close> decrements it by 1 and, if the
  result is exactly 0, triggers destruction of the instance; \<open>decref\<close> on an object
  whose count is already 0 is a contract violation; \<open>refcount\<close> returns the current
  count and has no side effect.
\<close>

definition TACSObject_new :: TACSObject where
  "TACSObject_new = \<lparr>ref_count = 0\<rparr>"

definition incref :: "'a TACSObject_scheme \<Rightarrow> 'a TACSObject_scheme" where
  "incref this = this\<lparr>ref_count := ref_count this + 1\<rparr>"

definition decref :: "'a TACSObject_scheme \<Rightarrow> 'a TACSObject_scheme lifetime outcome" where
  "decref this =
     (if ref_count this = 0 then Inl ContractViolation
      else let this' = this\<lparr>ref_count := ref_count this - 1\<rparr>
           in if ref_count this' = 0 then Inr Destroyed else Inr (Live this'))"

definition refcount :: "'a TACSObject_scheme \<Rightarrow> int" where
  "refcount this = ref_count this"

text \<open>
  A caller's sequence of \<open>incref\<close>/\<open>decref\<close> calls on one instance. The state is the
  instance (or its absence) together with the number of destructor runs so far; a call
  on an instance that has been destroyed is a contract violation, and the run stops at
  the first violation.
\<close>

datatype refop = Incref | Decref

fun ref_step ::
  "refop \<Rightarrow> 'a TACSObject_scheme lifetime \<times> nat \<Rightarrow> ('a TACSObject_scheme lifetime \<times> nat) outcome"
where
  "ref_step Incref (Live obj, d) = Inr (Live (incref obj), d)"
| "ref_step Decref (Live obj, d) =
     (case decref obj of
        Inl e \<Rightarrow> Inl e
      | Inr Destroyed \<Rightarrow> Inr (Destroyed, Suc d)
      | Inr (Live obj') \<Rightarrow> Inr (Live obj', d))"
| "ref_step c (Destroyed, d) = Inl ContractViolation"

fun ref_run ::
  "refop list \<Rightarrow> 'a TACSObject_scheme lifetime \<times> nat \<Rightarrow> ('a TACSObject_scheme lifetime \<times> nat) outcome"
where
  "ref_run [] s = Inr s"
| "ref_run (c # cs) s = (case ref_step c s of Inl e \<Rightarrow> Inl e | Inr s' \<Rightarrow> ref_run cs s')"

section \<open>Design variables: class \<^verbatim>\<open>TACSOptObject\<close>\<close>

text \<open>
  \<^verbatim>\<open>class TACSOptObject : public TACSObject\<close> adds no field. An array argument is a
  list; a method returns the instance and every array it could write to (the non-const
  ones). The element type \<open>'s\<close> stands for \<^verbatim>\<open>TacsScalar\<close> of either build.

  \<^verbatim>\<open>virtual void setDesignVars( const TacsScalar dvs[], int numDVs ){}\<close>
\<close>

definition setDesignVars ::
  "'a TACSObject_scheme \<Rightarrow> 's list \<Rightarrow> int \<Rightarrow> 'a TACSObject_scheme outcome" where
  "setDesignVars this dvs numDVs = Inr this"

text \<open>\<^verbatim>\<open>virtual void getDesignVars( TacsScalar dvs[], int numDVs ){}\<close>\<close>

definition getDesignVars ::
  "'a TACSObject_scheme \<Rightarrow> 's list \<Rightarrow> int \<Rightarrow> ('a TACSObject_scheme \<times> 's list) outcome" where
  "getDesignVars this dvs numDVs = Inr (this, dvs)"

text \<open>
  \<^verbatim>\<open>virtual void getDesignVarRange( TacsScalar lowerBound[],
                                  TacsScalar upperBound[], int numDVs ){}\<close>
\<close>

definition getDesignVarRange ::
  "'a TACSObject_scheme \<Rightarrow> 's list \<Rightarrow> 's list \<Rightarrow> int
   \<Rightarrow> ('a TACSObject_scheme \<times> 's list \<times> 's list) outcome" where
  "getDesignVarRange this lowerBound upperBound numDVs = Inr (this, lowerBound, upperBound)"

section \<open>Sparse constraints: class \<^verbatim>\<open>TACSSparseConObject\<close>\<close>

text \<open>
  \<^verbatim>\<open>class TACSSparseConObject : public TACSOptObject\<close> adds no field either. Each
  method returns its \<^verbatim>\<open>int\<close> result first.

  \<^verbatim>\<open>virtual int isLinear(){ return 0; }\<close>
\<close>

definition isLinear :: "'a TACSObject_scheme \<Rightarrow> (int \<times> 'a TACSObject_scheme) outcome" where
  "isLinear this = Inr (0, this)"

text \<open>\<^verbatim>\<open>virtual int getNumCon(){ return 0; }\<close>\<close>

definition getNumCon :: "'a TACSObject_scheme \<Rightarrow> (int \<times> 'a TACSObject_scheme) outcome" where
  "getNumCon this = Inr (0, this)"

text \<open>\<^verbatim>\<open>virtual int getConCSRSize(){ return 0; }\<close>\<close>

definition getConCSRSize :: "'a TACSObject_scheme \<Rightarrow> (int \<times> 'a TACSObject_scheme) outcome" where
  "getConCSRSize this = Inr (0, this)"

text \<open>
  \<^verbatim>\<open>virtual int getConRange( int offset, TacsScalar lb[], TacsScalar ub[] ){ return 0; }\<close>
\<close>

definition getConRange ::
  "'a TACSObject_scheme \<Rightarrow> int \<Rightarrow> 's list \<Rightarrow> 's list
   \<Rightarrow> (int \<times> 'a TACSObject_scheme \<times> 's list \<times> 's list) outcome" where
  "getConRange this offset lb ub = Inr (0, this, lb, ub)"

text \<open>\<^verbatim>\<open>virtual int addConCSR( int offset, int rowp[], int cols[] ){ return 0; }\<close>\<close>

definition addConCSR ::
  "'a TACSObject_scheme \<Rightarrow> int \<Rightarrow> int list \<Rightarrow> int list
   \<Rightarrow> (int \<times> 'a TACSObject_scheme \<times> int list \<times> int list) outcome" where
  "addConCSR this offset rowp cols = Inr (0, this, rowp, cols)"

text \<open>\<^verbatim>\<open>virtual int evalCon( int offset, TacsScalar con[] ){ return 0; }\<close>\<close>

definition evalCon ::
  "'a TACSObject_scheme \<Rightarrow> int \<Rightarrow> 's list \<Rightarrow> (int \<times> 'a TACSObject_scheme \<times> 's list) outcome" where
  "evalCon this offset con = Inr (0, this, con)"

text \<open>
  \<^verbatim>\<open>virtual int evalConDVSens( int offset, TacsScalar Acol[],
                             const int rowp[], const int cols[] ){ return 0; }\<close>
\<close>

definition evalConDVSens ::
  "'a TACSObject_scheme \<Rightarrow> int \<Rightarrow> 's list \<Rightarrow> int list \<Rightarrow> int list
   \<Rightarrow> (int \<times> 'a TACSObject_scheme \<times> 's list) outcome" where
  "evalConDVSens this offset Acol rowp cols = Inr (0, this, Acol)"

section \<open>Thread count: class \<^verbatim>\<open>TACSThreadInfo\<close>\<close>

text \<open>
  \<^verbatim>\<open>class TACSThreadInfo : public TACSObject { ... private: int num_threads; };\<close>
\<close>

record TACSThreadInfo = TACSObject +
  num_threads :: int

text \<open>\<^verbatim>\<open>static const int TACS_MAX_NUM_THREADS = 16;\<close>\<close>

definition TACS_MAX_NUM_THREADS :: int where
  "TACS_MAX_NUM_THREADS = 16"

text \<open>The bounds of a thread count: from 1 to the fixed maximum.\<close>

definition num_threads_in_bounds :: "int \<Rightarrow> bool" where
  "num_threads_in_bounds n \<longleftrightarrow> 1 \<le> n \<and> n \<le> TACS_MAX_NUM_THREADS"

text \<open>
  Modelled from the spec: the bodies of the constructor
  \<^verbatim>\<open>TACSThreadInfo( int _num_threads )\<close>, of \<^verbatim>\<open>setNumThreads( int _num_threads )\<close>
  and of \<^verbatim>\<open>getNumThreads()\<close>, which the header only declares. The spec leaves the
  policy for an out-of-range argument to the implementer and recommends clamping to
  [1, MAX]; that policy is the one modelled, in the constructor and in the setter alike.
  The constructor starts from the base-class constructor, so the reference count is 0.
\<close>

definition TACSThreadInfo_new :: "int \<Rightarrow> TACSThreadInfo" where
  "TACSThreadInfo_new n =
     \<lparr>ref_count = 0,
      num_threads = (if n < 1 then 1
                     else if TACS_MAX_NUM_THREADS < n then TACS_MAX_NUM_THREADS
                     else n)\<rparr>"

definition setNumThreads :: "TACSThreadInfo \<Rightarrow> int \<Rightarrow> TACSThreadInfo" where
  "setNumThreads this n =
     this\<lparr>num_threads := (if n < 1 then 1
                           else if TACS_MAX_NUM_THREADS < n then TACS_MAX_NUM_THREADS
                           else n)\<rparr>"

definition getNumThreads :: "TACSThreadInfo \<Rightarrow> int" where
  "getNumThreads this = num_threads this"

section \<open>Process-wide initialization\<close>

text \<open>
  \<^verbatim>\<open>extern MPI_Op TACS_MPI_MIN; extern MPI_Op TACS_MPI_MAX;\<close>
  The two reduction operators that the core registers with the messaging substrate.
\<close>

datatype reduction_op = TACS_MPI_MIN | TACS_MPI_MAX

text \<open>
  Modelled from the spec: the process-wide state and the bodies of
  \<^verbatim>\<open>TacsInitialize()\<close> and \<^verbatim>\<open>TacsIsInitialized()\<close>, which the header only declares.
  The state is one flag and the log of registrations made with the substrate, one entry
  per registration. Initialization sets the flag and registers the minimum and the
  maximum operator; it is guarded by the flag, so a repeated call registers nothing.
  \<open>TacsIsInitialized\<close> returns the flag as an \<^verbatim>\<open>int\<close>.
\<close>

record tacs_process =
  is_initialized :: bool
  registrations :: "reduction_op list"

definition tacs_process_start :: tacs_process where
  "tacs_process_start = \<lparr>is_initialized = False, registrations = []\<rparr>"

definition TacsInitialize :: "tacs_process \<Rightarrow> tacs_process" where
  "TacsInitialize p =
     (if is_initialized p then p
      else p\<lparr>is_initialized := True,
             registrations := registrations p @ [TACS_MPI_MIN, TACS_MPI_MAX]\<rparr>)"

definition TacsIsInitialized :: "tacs_process \<Rightarrow> int" where
  "TacsIsInitialized p = (if is_initialized p then 1 else 0)"

section \<open>Properties of the scalar functions\<close>

text \<open>
  C3: for a complex scalar with negative real part, \<open>fabs\<close> returns the negated value:
  its real part is the positive magnitude of the argument's real part and its imaginary
  part is the negation of the argument's imaginary part. For a complex scalar with
  non-negative real part, \<open>fabs\<close> returns the argument unchanged.
\<close>

theorem fabs_flips_whole_value:
  "(Re c < 0 \<longrightarrow> fabs c = - c \<and> Re (fabs c) = \<bar>Re c\<bar> \<and> 0 < Re (fabs c) \<and> Im (fabs c) = - Im c)
   \<and> (0 \<le> Re c \<longrightarrow> fabs c = c)"
  by (simp add: fabs_def)

theorem fabs_flips_whole_value_witness:
  "Re (Complex (-3) 2) < 0 \<and> fabs (Complex (-3) 2) = Complex 3 (-2)
   \<and> 0 \<le> Re (Complex 3 2) \<and> fabs (Complex 3 2) = Complex 3 2"
  using fabs_flips_whole_value [of "Complex (-3) 2"] fabs_flips_whole_value [of "Complex 3 2"]
  by (simp add: complex_eq_iff)

text \<open>
  C4: in the real build, where a scalar is a plain \<^verbatim>\<open>double\<close>, imaginary-part
  extraction applied to any scalar yields zero.
\<close>

theorem ImagPart_real_build_zero: "ImagPart_double r = 0"
  by (simp add: ImagPart_double_def ImagPart_def TacsComplex_of_double_def)

text \<open>
  C5: real-part extraction yields the primal value in both builds: applied to a plain
  real it returns that real, applied to a complex value it returns the real component.
\<close>

theorem RealPart_is_primal:
  "RealPart_double r = r \<and> RealPart (Complex x y) = x \<and> RealPart (TacsComplex_of_double r) = r"
  by (simp add: RealPart_double_def RealPart_def TacsComplex_of_double_def)

section \<open>Properties of reference counting\<close>

text \<open>Running two call sequences one after the other, stopping at a violation.\<close>

lemma ref_run_append:
  "ref_run (cs @ cs') s = (case ref_run cs s of Inl e \<Rightarrow> Inl e | Inr s' \<Rightarrow> ref_run cs' s')"
  by (induction cs arbitrary: s) (auto split: sum.splits)

lemma ref_run_increfs:
  "ref_run (replicate n Incref) (Live obj, d) =
     Inr (Live (obj\<lparr>ref_count := ref_count obj + int n\<rparr>), d)"
  by (induction n arbitrary: obj) (simp_all add: incref_def add.assoc)

lemma ref_run_decrefs_live:
  "int n < ref_count obj \<Longrightarrow>
   ref_run (replicate n Decref) (Live obj, d) =
     Inr (Live (obj\<lparr>ref_count := ref_count obj - int n\<rparr>), d)"
proof (induction n arbitrary: obj)
  case 0
  then show ?case by simp
next
  case (Suc n)
  have "decref obj = Inr (Live (obj\<lparr>ref_count := ref_count obj - 1\<rparr>))"
    using Suc.prems by (simp add: decref_def Let_def)
  moreover have "int n < ref_count (obj\<lparr>ref_count := ref_count obj - 1\<rparr>)"
    using Suc.prems by simp
  ultimately show ?case
    using Suc.IH [of "obj\<lparr>ref_count := ref_count obj - 1\<rparr>"]
    by (simp add: algebra_simps)
qed

lemma ref_run_decrefs_last:
  "ref_count obj = int (Suc n) \<Longrightarrow>
   ref_run (replicate (Suc n) Decref) (Live obj, d) = Inr (Destroyed, Suc d)"
proof -
  assume c: "ref_count obj = int (Suc n)"
  have "replicate (Suc n) Decref = replicate n Decref @ [Decref]"
    by (simp add: replicate_append_same)
  moreover have "ref_run (replicate n Decref) (Live obj, d) =
      Inr (Live (obj\<lparr>ref_count := ref_count obj - int n\<rparr>), d)"
    using c by (intro ref_run_decrefs_live) simp
  ultimately show ?thesis
    using c by (simp add: ref_run_append decref_def Let_def del: replicate_Suc)
qed

text \<open>
  C1: starting from an object whose count is 0, as a freshly constructed one is, N calls
  of \<open>incref\<close> followed by N calls of \<open>decref\<close> (N at least 1) run the destructor
  exactly once, on the final \<open>decref\<close>: the whole sequence ends with the object
  destroyed and one destructor run, and after every shorter prefix of the sequence the
  object is still alive with no destructor run, its count being the number of increments
  so far minus the number of decrements so far, which is positive once the first
  \<open>incref\<close> has been made.
\<close>

theorem refcount_destroyed_once_on_final_decref:
  assumes "ref_count obj = 0" and "0 < N"
  shows "ref_run (replicate N Incref @ replicate N Decref) (Live obj, 0) = Inr (Destroyed, 1)
    \<and> (\<forall>k<2 * N.
          ref_run (take k (replicate N Incref @ replicate N Decref)) (Live obj, 0) =
            Inr (Live (obj\<lparr>ref_count := (if k \<le> N then int k else int (2 * N - k))\<rparr>), 0))"
proof (intro conjI allI impI)
  obtain n where N: "N = Suc n" using assms(2) by (cases N) auto
  show "ref_run (replicate N Incref @ replicate N Decref) (Live obj, 0) = Inr (Destroyed, 1)"
    unfolding N using assms(1)
    by (simp only: ref_run_append ref_run_increfs sum.case)
       (simp add: ref_run_decrefs_last del: replicate_Suc ref_run.simps)
next
  fix k assume k: "k < 2 * N"
  show "ref_run (take k (replicate N Incref @ replicate N Decref)) (Live obj, 0) =
            Inr (Live (obj\<lparr>ref_count := (if k \<le> N then int k else int (2 * N - k))\<rparr>), 0)"
  proof (cases "k \<le> N")
    case True
    then have "take k (replicate N Incref @ replicate N Decref) = replicate k Incref"
      by (simp add: min_def)
    then show ?thesis using True assms(1) by (simp add: ref_run_increfs)
  next
    case False
    then have t: "take k (replicate N Incref @ replicate N Decref)
        = replicate N Incref @ replicate (k - N) Decref"
      using k by (simp add: min_def)
    have "int (k - N) < ref_count (obj\<lparr>ref_count := ref_count obj + int N\<rparr>)"
      using k False assms(1) by simp
    then have "ref_run (replicate (k - N) Decref) (Live (obj\<lparr>ref_count := ref_count obj + int N\<rparr>), 0)
       = Inr (Live (obj\<lparr>ref_count := ref_count obj + int N - int (k - N)\<rparr>), 0)"
      using ref_run_decrefs_live [of "k - N" "obj\<lparr>ref_count := ref_count obj + int N\<rparr>" 0] by simp
    moreover have "ref_count obj + int N - int (k - N) = int (2 * N - k)"
      using k False assms(1) by simp
    ultimately show ?thesis using False
      by (simp only: t ref_run_append ref_run_increfs sum.case if_False)
  qed
qed

theorem refcount_destroyed_once_on_final_decref_witness:
  "ref_count TACSObject_new = 0 \<and> 0 < (2::nat)
   \<and> ref_run [Incref, Incref, Decref, Decref] (Live TACSObject_new, 0) = Inr (Destroyed, 1)
   \<and> ref_run [Incref, Incref, Decref] (Live TACSObject_new, 0) = Inr (Live \<lparr>ref_count = 1\<rparr>, 0)"
proof -
  have z: "ref_count TACSObject_new = 0" by (simp add: TACSObject_new_def)
  have p: "0 < (2::nat)" by simp
  note th = refcount_destroyed_once_on_final_decref [OF z p]
  have a: "replicate 2 Incref @ replicate 2 Decref = [Incref, Incref, Decref, Decref]"
    by (simp add: numeral_2_eq_2)
  from th have "ref_run [Incref, Incref, Decref, Decref] (Live TACSObject_new, 0) = Inr (Destroyed, 1)"
    by (simp only: a)
  moreover from th have "ref_run (take 3 [Incref, Incref, Decref, Decref]) (Live TACSObject_new, 0)
     = Inr (Live (TACSObject_new\<lparr>ref_count := (if (3::nat) \<le> 2 then int 3 else int (2 * 2 - 3))\<rparr>), 0)"
    unfolding a by (elim conjE allE [of _ 3]) simp
  ultimately show ?thesis using z by (simp add: TACSObject_new_def)
qed

text \<open>
  C2, as stated, fails on a freshly constructed object: its count is 0, \<open>incref\<close>
  makes it 1, and the following \<open>decref\<close> brings it to 0 and destroys the object.
\<close>

theorem incref_decref_on_fresh_object_destroys:
  "refcount TACSObject_new = 0 \<and> decref (incref TACSObject_new) = Inr Destroyed"
  by (simp add: refcount_def TACSObject_new_def incref_def decref_def)

text \<open>
  C2, amended: for an object whose count is at least 1 before the pair, \<open>incref\<close>
  immediately followed by \<open>decref\<close> leaves the object alive and exactly as it was, so
  \<open>refcount\<close> has the value it had before the pair and no destruction is triggered.
\<close>

theorem incref_decref_on_owned_object:
  "0 < refcount this \<Longrightarrow>
   decref (incref this) = Inr (Live this) \<and> refcount (incref this) = refcount this + 1"
  by (simp add: refcount_def incref_def decref_def)

theorem incref_decref_on_owned_object_witness:
  "0 < refcount \<lparr>ref_count = 1\<rparr>
   \<and> decref (incref \<lparr>ref_count = 1\<rparr>) = Inr (Live \<lparr>ref_count = 1\<rparr>)"
  using incref_decref_on_owned_object [of "\<lparr>ref_count = 1\<rparr>"]
  by (simp add: refcount_def)

section \<open>Properties of process-wide initialization\<close>

text \<open>
  C6: \<open>TacsIsInitialized\<close> returns 0 before any call of \<open>TacsInitialize\<close>, a nonzero
  value after one call and still a nonzero value after a second call; the first call
  registers the two reduction operators and the second call registers nothing more.
  A repeated call changes nothing at all, from any state.
\<close>

theorem TacsInitialize_idempotent:
  "TacsIsInitialized tacs_process_start = 0
   \<and> TacsIsInitialized (TacsInitialize tacs_process_start) \<noteq> 0
   \<and> TacsIsInitialized (TacsInitialize (TacsInitialize tacs_process_start)) \<noteq> 0
   \<and> registrations (TacsInitialize tacs_process_start) = [TACS_MPI_MIN, TACS_MPI_MAX]
   \<and> registrations (TacsInitialize (TacsInitialize tacs_process_start))
       = registrations (TacsInitialize tacs_process_start)
   \<and> TacsInitialize (TacsInitialize p) = TacsInitialize p"
  by (simp add: TacsIsInitialized_def TacsInitialize_def tacs_process_start_def)

section \<open>Properties of the default capabilities\<close>

text \<open>
  C7: on a \<^verbatim>\<open>TACSSparseConObject\<close> that overrides nothing, each of \<open>isLinear\<close>,
  \<open>getNumCon\<close>, \<open>getConCSRSize\<close>, \<open>getConRange\<close>, \<open>addConCSR\<close>, \<open>evalCon\<close>
  and \<open>evalConDVSens\<close> returns 0 and leaves the object and every array passed to it as
  they were, whatever the offset and the arrays are.
\<close>

theorem sparse_con_defaults_contribute_nothing:
  "isLinear this = Inr (0, this)
   \<and> getNumCon this = Inr (0, this)
   \<and> getConCSRSize this = Inr (0, this)
   \<and> getConRange this offset1 lb ub = Inr (0, this, lb, ub)
   \<and> addConCSR this offset2 rowp cols = Inr (0, this, rowp, cols)
   \<and> evalCon this offset3 con = Inr (0, this, con)
   \<and> evalConDVSens this offset4 Acol rowp' cols' = Inr (0, this, Acol)"
  by (simp add: isLinear_def getNumCon_def getConCSRSize_def getConRange_def addConCSR_def
      evalCon_def evalConDVSens_def)

text \<open>
  C8: on a \<^verbatim>\<open>TACSOptObject\<close> that overrides nothing, \<open>setDesignVars\<close>,
  \<open>getDesignVars\<close> and \<open>getDesignVarRange\<close> return normally for every argument and
  leave the object and the arrays passed to them unchanged.
\<close>

theorem opt_object_defaults_are_noops:
  "setDesignVars this dvs numDVs = Inr this
   \<and> getDesignVars this dvs' numDVs' = Inr (this, dvs')
   \<and> getDesignVarRange this lowerBound upperBound numDVs'' = Inr (this, lowerBound, upperBound)"
  by (simp add: setDesignVars_def getDesignVars_def getDesignVarRange_def)

section \<open>Properties of the thread count\<close>

lemma setNumThreads_in_bounds: "num_threads_in_bounds (getNumThreads (setNumThreads this n))"
  by (simp add: num_threads_in_bounds_def getNumThreads_def setNumThreads_def
      TACS_MAX_NUM_THREADS_def)

lemma TACSThreadInfo_new_in_bounds: "num_threads_in_bounds (getNumThreads (TACSThreadInfo_new n))"
  by (simp add: num_threads_in_bounds_def getNumThreads_def TACSThreadInfo_new_def
      TACS_MAX_NUM_THREADS_def)

lemma foldl_setNumThreads_in_bounds:
  "num_threads_in_bounds (getNumThreads this) \<Longrightarrow>
   num_threads_in_bounds (getNumThreads (foldl setNumThreads this ns))"
  by (induction ns arbitrary: this) (simp_all add: setNumThreads_in_bounds)

text \<open>
  C9: the stored thread count is within [1, \<open>TACS_MAX_NUM_THREADS\<close>] after
  construction, after a call of \<open>setNumThreads\<close> on any instance, and after any
  sequence of such calls on a constructed instance. The constructor and the setter treat
  their argument alike: the stored value is the argument clamped into the bounds.
\<close>

theorem thread_count_always_in_bounds:
  "num_threads_in_bounds (getNumThreads (TACSThreadInfo_new n))
   \<and> num_threads_in_bounds (getNumThreads (setNumThreads this m))
   \<and> num_threads_in_bounds (getNumThreads (foldl setNumThreads (TACSThreadInfo_new n) ms))
   \<and> getNumThreads (TACSThreadInfo_new n) = max 1 (min TACS_MAX_NUM_THREADS n)
   \<and> getNumThreads (setNumThreads this m) = max 1 (min TACS_MAX_NUM_THREADS m)"
proof (intro conjI)
  show "num_threads_in_bounds (getNumThreads (TACSThreadInfo_new n))"
    by (rule TACSThreadInfo_new_in_bounds)
  show "num_threads_in_bounds (getNumThreads (setNumThreads this m))"
    by (rule setNumThreads_in_bounds)
  show "num_threads_in_bounds (getNumThreads (foldl setNumThreads (TACSThreadInfo_new n) ms))"
    by (rule foldl_setNumThreads_in_bounds) (rule TACSThreadInfo_new_in_bounds)
  show "getNumThreads (TACSThreadInfo_new n) = max 1 (min TACS_MAX_NUM_THREADS n)"
    by (simp add: getNumThreads_def TACSThreadInfo_new_def TACS_MAX_NUM_THREADS_def)
  show "getNumThreads (setNumThreads this m) = max 1 (min TACS_MAX_NUM_THREADS m)"
    by (simp add: getNumThreads_def setNumThreads_def TACS_MAX_NUM_THREADS_def)
qed

text \<open>
  C10: the fixed maximum thread count is 16, so a thread count within the bounds never
  exceeds 16.
\<close>

theorem max_num_threads_is_16:
  "TACS_MAX_NUM_THREADS = 16 \<and> (num_threads_in_bounds n \<longrightarrow> n \<le> 16)"
  by (simp add: TACS_MAX_NUM_THREADS_def num_threads_in_bounds_def)

theorem max_num_threads_is_16_witness:
  "num_threads_in_bounds 16 \<and> (16::int) \<le> 16 \<and> \<not> num_threads_in_bounds 17"
  using max_num_threads_is_16 [of 16] max_num_threads_is_16 [of 17]
  by (simp add: num_threads_in_bounds_def)

end
